theory Spec2Isabelle
  imports Main "HOL-Library.Sublist"
begin

section \<open>Values of the Python script\<close>

text \<open>
  The script \<^verbatim>\<open>convert_otel_simple.py\<close> decodes every line of a JSONL file with
  \<^verbatim>\<open>json.loads\<close> and works on the decoded Python values. A decoded value is \<^verbatim>\<open>None\<close>,
  a bool, an int, a float, a str, a list or a dict. A dict keeps its keys in insertion
  order (the order \<^verbatim>\<open>repr\<close> prints them in), so it is an association list. A float is
  carried by its \<^verbatim>\<open>repr\<close> text, which identifies it (\<^verbatim>\<open>repr\<close> of a float round-trips).
\<close>

datatype json =
    JNull
  | JBool bool
  | JInt int
  | JFloat string
  | JStr string
  | JList "json list"
  | JDict "(string \<times> json) list"

type_synonym pydict = "(string \<times> json) list"

datatype error = JSONDecodeError | AttributeError | OSError

text \<open>\<^verbatim>\<open>d.get(k)\<close> and \<^verbatim>\<open>d.get(k, default)\<close> on a dict.\<close>

definition dict_get :: "pydict \<Rightarrow> string \<Rightarrow> json" where
  "dict_get d k = (case map_of d k of None \<Rightarrow> JNull | Some v \<Rightarrow> v)"

definition dict_get_default :: "pydict \<Rightarrow> string \<Rightarrow> json \<Rightarrow> json" where
  "dict_get_default d k dflt = (case map_of d k of None \<Rightarrow> dflt | Some v \<Rightarrow> v)"

text \<open>\<^verbatim>\<open>d[k] = v\<close>: an existing key keeps its place, a new key goes to the end.\<close>

fun dict_set :: "string \<Rightarrow> json \<Rightarrow> pydict \<Rightarrow> pydict" where
  "dict_set k v [] = [(k, v)]"
| "dict_set k v ((k', v') # d) = (if k' = k then (k, v) # d else (k', v') # dict_set k v d)"

text \<open>Truth value of a Python object, as \<^verbatim>\<open>if tool_input:\<close> tests it.\<close>

fun truthy :: "json \<Rightarrow> bool" where
  "truthy JNull = False"
| "truthy (JBool b) = b"
| "truthy (JInt i) = (i \<noteq> 0)"
| "truthy (JFloat r) = (r \<noteq> ''0.0'' \<and> r \<noteq> ''-0.0'')"
| "truthy (JStr s) = (s \<noteq> [])"
| "truthy (JList xs) = (xs \<noteq> [])"
| "truthy (JDict d) = (d \<noteq> [])"

section \<open>Rendering of values in an f-string\<close>

definition digit_char :: "nat \<Rightarrow> char" where
  "digit_char n = ''0123456789'' ! n"

fun str_nat :: "nat \<Rightarrow> string" where
  "str_nat n = (if n < 10 then [digit_char n] else str_nat (n div 10) @ [digit_char (n mod 10)])"

declare str_nat.simps [simp del]

definition str_int :: "int \<Rightarrow> string" where
  "str_int i = (if i < 0 then CHR ''-'' # str_nat (nat (- i)) else str_nat (nat i))"

text \<open>\<^verbatim>\<open>sep.join(xs)\<close>.\<close>

fun join :: "string \<Rightarrow> string list \<Rightarrow> string" where
  "join sep [] = []"
| "join sep [x] = x"
| "join sep (x # y # ys) = x @ sep @ join sep (y # ys)"

text \<open>
  \<^verbatim>\<open>repr(v)\<close>. The \<^verbatim>\<open>repr\<close> of a str (quoting and escaping, which follow the Unicode
  database) is the parameter \<open>R\<close>.
\<close>

fun py_repr :: "(string \<Rightarrow> string) \<Rightarrow> json \<Rightarrow> string" where
  "py_repr R JNull = ''None''"
| "py_repr R (JBool b) = (if b then ''True'' else ''False'')"
| "py_repr R (JInt i) = str_int i"
| "py_repr R (JFloat r) = r"
| "py_repr R (JStr s) = R s"
| "py_repr R (JList xs) = ''['' @ join '', '' (map (py_repr R) xs) @ '']''"
| "py_repr R (JDict d) =
     ''{'' @ join '', '' (map (\<lambda>(k, v). R k @ '': '' @ py_repr R v) d) @ ''}''"

text \<open>\<^verbatim>\<open>{v}\<close> in an f-string is \<^verbatim>\<open>str(v)\<close>: a str is itself, any other value its repr.\<close>

definition py_str :: "(string \<Rightarrow> string) \<Rightarrow> json \<Rightarrow> string" where
  "py_str R v = (case v of JStr s \<Rightarrow> s | _ \<Rightarrow> py_repr R v)"

definition nl :: string where
  "nl = [CHR 0x0A]"

section \<open>The runtime the script runs in\<close>

text \<open>
  What the script takes from Python and the operating system: \<^verbatim>\<open>json.loads\<close>
  (\<open>None\<close> when it raises), the \<^verbatim>\<open>repr\<close> of a str, the lines of the file at a path
  (\<open>None\<close> when it cannot be opened), and whether a path can be opened for writing.
\<close>

record runtime =
  loads :: "string \<Rightarrow> json option"
  repr_str :: "string \<Rightarrow> string"
  read_lines :: "string \<Rightarrow> string list option"
  writable :: "string \<Rightarrow> bool"

section \<open>Extraction (lines 7 to 26)\<close>

text \<open>
  The dict literal of lines 16 to 21. \<^verbatim>\<open>tool_input.get\<close> raises AttributeError unless
  \<^verbatim>\<open>tool_input\<close> is a dict, and so does \<^verbatim>\<open>data.get('timing', {}).get\<close> unless the timing
  value is one.
\<close>

definition make_call :: "pydict \<Rightarrow> json \<Rightarrow> error + pydict" where
  "make_call data tool_input =
     (case tool_input of
        JDict ti \<Rightarrow>
          (case dict_get_default data ''timing'' (JDict []) of
             JDict tm \<Rightarrow>
               Inr [(''tool_name'', dict_get ti ''tool_name''),
                    (''start_time'', dict_get data ''timestamp''),
                    (''input'', dict_get_default ti ''tool_args'' (JDict [])),
                    (''duration_ms'', dict_get_default tm ''step_timeuse_ms'' (JInt 0))]
           | _ \<Rightarrow> Inl AttributeError)
      | _ \<Rightarrow> Inl AttributeError)"

text \<open>Lines 25 and 26: the two assignments to \<^verbatim>\<open>tool_calls[-1]\<close>.\<close>

definition attach_output :: "pydict \<Rightarrow> pydict \<Rightarrow> pydict" where
  "attach_output out call =
     dict_set ''success'' (dict_get_default out ''success'' (JBool False))
       (dict_set ''output'' (dict_get_default out ''results'' (JStr [])) call)"

text \<open>
  The body of the loop, lines 10 to 26, after \<^verbatim>\<open>json.loads\<close>: \<open>calls\<close> is the list
  \<^verbatim>\<open>tool_calls\<close> before the event and the result is the list after it. \<^verbatim>\<open>data.get\<close>
  raises AttributeError when the decoded line is not a dict.
\<close>

fun process_event :: "pydict list \<Rightarrow> json \<Rightarrow> error + pydict list" where
  "process_event calls (JDict data) =
     (if dict_get data ''event_type'' = JStr ''ToolInput'' then
        (let tool_input = dict_get_default data ''tool_input'' (JDict []) in
         if truthy tool_input then
           (case make_call data tool_input of
              Inl e \<Rightarrow> Inl e
            | Inr call \<Rightarrow> Inr (calls @ [call]))
         else Inr calls)
      else if dict_get data ''event_type'' = JStr ''ToolOutput'' then
        (let tool_output = dict_get_default data ''tool_output'' (JDict []) in
         if calls \<noteq> [] then
           (case tool_output of
              JDict out \<Rightarrow>
                Inr (calls[length calls - 1 := attach_output out (last calls)])
            | _ \<Rightarrow> Inl AttributeError)
         else Inr calls)
      else Inr calls)"
| "process_event calls _ = Inl AttributeError"

text \<open>The loop over the lines of the file; it stops at the first line that raises.\<close>

fun extract_loop :: "runtime \<Rightarrow> pydict list \<Rightarrow> string list \<Rightarrow> error + pydict list" where
  "extract_loop E calls [] = Inr calls"
| "extract_loop E calls (line # rest) =
     (case loads E line of
        None \<Rightarrow> Inl JSONDecodeError
      | Some data \<Rightarrow>
          (case process_event calls data of
             Inl e \<Rightarrow> Inl e
           | Inr calls' \<Rightarrow> extract_loop E calls' rest))"

definition extract_tool_calls :: "runtime \<Rightarrow> string list \<Rightarrow> error + pydict list" where
  "extract_tool_calls E lines = extract_loop E [] lines"

section \<open>Reporting (lines 28 to 49)\<close>

text \<open>Line 30, the argument of \<^verbatim>\<open>print\<close> for the call at 0-based index \<open>i\<close>.\<close>

definition console_line :: "(string \<Rightarrow> string) \<Rightarrow> nat \<Rightarrow> pydict \<Rightarrow> string" where
  "console_line R i call =
     ''  '' @ str_nat (i + 1) @ ''. ''
       @ py_str R (dict_get_default call ''tool_name'' (JStr ''Unknown''))
       @ '' - '' @ py_str R (dict_get_default call ''input'' (JDict []))"

text \<open>Lines 28 to 30: the arguments of the successive \<^verbatim>\<open>print\<close> calls.\<close>

definition console_summary :: "(string \<Rightarrow> string) \<Rightarrow> pydict list \<Rightarrow> string list" where
  "console_summary R calls =
     (''Found '' @ str_nat (length calls) @ '' tool calls:'')
       # map (\<lambda>(i, call). console_line R i call) (enumerate 0 calls)"

text \<open>Lines 33 to 35.\<close>

definition yml_header :: string where
  "yml_header =
     ''session_id: 306114a3-3d36-43bb-ac40-335fef6307ac'' @ nl @ ''tool_calls:'' @ nl"

text \<open>Lines 38 to 42, the text appended for one call.\<close>

definition yml_entry :: "(string \<Rightarrow> string) \<Rightarrow> pydict \<Rightarrow> string" where
  "yml_entry R call =
     ''  - tool_name: '' @ py_str R (dict_get_default call ''tool_name'' (JStr ''Unknown'')) @ nl
     @ ''    start_time: '' @ [CHR 0x22]
         @ py_str R (dict_get_default call ''start_time'' (JStr [])) @ [CHR 0x22] @ nl
     @ ''    input: '' @ py_str R (dict_get_default call ''input'' (JDict [])) @ nl
     @ ''    duration_ms: '' @ py_str R (dict_get_default call ''duration_ms'' (JInt 0)) @ nl"

text \<open>Lines 33 to 42: \<^verbatim>\<open>yml_content\<close> after the loop.\<close>

definition yml_content :: "(string \<Rightarrow> string) \<Rightarrow> pydict list \<Rightarrow> string" where
  "yml_content R calls = foldl (\<lambda>acc call. acc @ yml_entry R call) yml_header calls"

text \<open>
  \<^verbatim>\<open>s.replace(old, new)\<close>: every occurrence of \<open>old\<close>, found from the left without
  overlap, becomes \<open>new\<close>; with an empty \<open>old\<close>, \<open>new\<close> goes before every character and
  at the end.
\<close>

function replace :: "string \<Rightarrow> string \<Rightarrow> string \<Rightarrow> string" where
  "replace old new s =
     (if old = [] then new @ concat (map (\<lambda>c. c # new) s)
      else if s = [] then []
      else if prefix old s then new @ replace old new (drop (length old) s)
      else hd s # replace old new (tl s))"
  by pat_completeness auto
termination
  by (relation "measure (\<lambda>(old, new, s). length s)") auto

declare replace.simps [simp del]

text \<open>Line 45.\<close>

definition yml_path :: "string \<Rightarrow> string" where
  "yml_path file_path = replace ''.jsonl'' ''.yml'' file_path"

text \<open>Line 5.\<close>

definition default_path :: string where
  "default_path = ''logs/sessions/enhanced_otel_306114a3-3d36-43bb-ac40-335fef6307ac.jsonl''"

definition file_path :: "string list \<Rightarrow> string" where
  "file_path argv = (if length argv > 1 then argv ! 1 else default_path)"

section \<open>The whole run\<close>

text \<open>
  What a run leaves behind: the exception that ended it (\<open>None\<close> for a normal exit), the
  arguments of the \<^verbatim>\<open>print\<close> calls made, and the path and text of the file written, if
  one was.
\<close>

record outcome =
  status :: "error option"
  console :: "string list"
  written :: "(string \<times> string) option"

definition main :: "runtime \<Rightarrow> string list \<Rightarrow> outcome" where
  "main E argv =
     (case read_lines E (file_path argv) of
        None \<Rightarrow> \<lparr>status = Some OSError, console = [], written = None\<rparr>
      | Some lines \<Rightarrow>
          (case extract_tool_calls E lines of
             Inl e \<Rightarrow> \<lparr>status = Some e, console = [], written = None\<rparr>
           | Inr tool_calls \<Rightarrow>
               (let summary = console_summary (repr_str E) tool_calls;
                    content = yml_content (repr_str E) tool_calls;
                    dest = yml_path (file_path argv)
                in if writable E dest
                   then \<lparr>status = None,
                         console = summary @ [nl @ ''Converted to: '' @ dest],
                         written = Some (dest, content)\<rparr>
                   else \<lparr>status = Some OSError, console = summary, written = None\<rparr>)))"

section \<open>Notions the properties are stated with\<close>

text \<open>
  A well-formed event is a mapping whose \<^verbatim>\<open>tool_input\<close>, \<^verbatim>\<open>tool_output\<close> and \<^verbatim>\<open>timing\<close>
  fields, where present, are mappings.
\<close>

definition mapping_or_absent :: "pydict \<Rightarrow> string \<Rightarrow> bool" where
  "mapping_or_absent d k =
     (case map_of d k of None \<Rightarrow> True | Some (JDict m) \<Rightarrow> True | Some _ \<Rightarrow> False)"

definition well_formed :: "json \<Rightarrow> bool" where
  "well_formed ev =
     (case ev of
        JDict data \<Rightarrow>
          mapping_or_absent data ''tool_input'' \<and> mapping_or_absent data ''tool_output''
          \<and> mapping_or_absent data ''timing''
      | _ \<Rightarrow> False)"

text \<open>A \<^verbatim>\<open>ToolInput\<close> event that carries a non-empty \<^verbatim>\<open>tool_input\<close> mapping.\<close>

definition carries_tool_input :: "json \<Rightarrow> bool" where
  "carries_tool_input ev =
     (case ev of
        JDict data \<Rightarrow>
          dict_get data ''event_type'' = JStr ''ToolInput''
          \<and> (case map_of data ''tool_input'' of Some (JDict ti) \<Rightarrow> ti \<noteq> [] | _ \<Rightarrow> False)
      | _ \<Rightarrow> False)"

text \<open>A record without the two fields that a \<^verbatim>\<open>ToolOutput\<close> event attaches.\<close>

definition call_core :: "pydict \<Rightarrow> pydict" where
  "call_core call = filter (\<lambda>(k, v). k \<noteq> ''output'' \<and> k \<noteq> ''success'') call"

text \<open>
  A record is derived from an event when, its \<^verbatim>\<open>output\<close> and \<^verbatim>\<open>success\<close> fields apart, it
  is the dict that lines 16 to 21 build for that event.
\<close>

definition derived_from :: "pydict \<Rightarrow> json \<Rightarrow> bool" where
  "derived_from call ev =
     (case ev of
        JDict data \<Rightarrow>
          make_call data (dict_get_default data ''tool_input'' (JDict [])) = Inr (call_core call)
      | _ \<Rightarrow> False)"

section \<open>Sample inputs\<close>

text \<open>
  Lines of an event log and the values \<^verbatim>\<open>json.loads\<close> decodes them to: a tool invocation
  with every field, its completion, an invocation without timing, one without a tool
  name, one that has only a tool name, and a line cut short.
\<close>

definition search_line :: string where
  \<open>search_line = ''{"event_type":"ToolInput","timestamp":"t1","tool_input":{"tool_name":"search","tool_args":{"q":"cats"}},"timing":{"step_timeuse_ms":120}}''\<close>

definition search_data :: pydict where
  "search_data =
     [(''event_type'', JStr ''ToolInput''), (''timestamp'', JStr ''t1''),
      (''tool_input'', JDict [(''tool_name'', JStr ''search''),
                              (''tool_args'', JDict [(''q'', JStr ''cats'')])]),
      (''timing'', JDict [(''step_timeuse_ms'', JInt 120)])]"

definition search_event :: json where
  "search_event = JDict search_data"

definition hits_line :: string where
  \<open>hits_line = ''{"event_type":"ToolOutput","tool_output":{"results":"3 hits","success":true}}''\<close>

definition hits_output :: pydict where
  "hits_output = [(''results'', JStr ''3 hits''), (''success'', JBool True)]"

definition hits_data :: pydict where
  "hits_data = [(''event_type'', JStr ''ToolOutput''), (''tool_output'', JDict hits_output)]"

definition hits_event :: json where
  "hits_event = JDict hits_data"

definition fetch_line :: string where
  \<open>fetch_line = ''{"event_type":"ToolInput","timestamp":"t2","tool_input":{"tool_name":"fetch","tool_args":{}}}''\<close>

definition fetch_data :: pydict where
  "fetch_data =
     [(''event_type'', JStr ''ToolInput''), (''timestamp'', JStr ''t2''),
      (''tool_input'', JDict [(''tool_name'', JStr ''fetch''), (''tool_args'', JDict [])])]"

definition fetch_event :: json where
  "fetch_event = JDict fetch_data"

definition nameless_line :: string where
  \<open>nameless_line = ''{"event_type":"ToolInput","timestamp":"t3","tool_input":{"tool_args":{"q":"dogs"}}}''\<close>

definition nameless_data :: pydict where
  "nameless_data =
     [(''event_type'', JStr ''ToolInput''), (''timestamp'', JStr ''t3''),
      (''tool_input'', JDict [(''tool_args'', JDict [(''q'', JStr ''dogs'')])])]"

definition nameless_event :: json where
  "nameless_event = JDict nameless_data"

definition bare_line :: string where
  \<open>bare_line = ''{"event_type":"ToolInput","tool_input":{"tool_name":"ping"}}''\<close>

definition bare_data :: pydict where
  "bare_data =
     [(''event_type'', JStr ''ToolInput''), (''tool_input'', JDict [(''tool_name'', JStr ''ping'')])]"

definition bare_event :: json where
  "bare_event = JDict bare_data"

definition cut_line :: string where
  \<open>cut_line = ''{"event_type":"ToolInp''\<close>

text \<open>
  A runtime for these lines. Its \<^verbatim>\<open>repr\<close> of a str puts the text between single quotes,
  which is what Python prints for the strings above. Four files exist, and every path
  can be written.
\<close>

definition sample_loads :: "string \<Rightarrow> json option" where
  "sample_loads =
     map_of [(search_line, search_event), (hits_line, hits_event), (fetch_line, fetch_event),
             (nameless_line, nameless_event), (bare_line, bare_event)]"

definition sample_repr :: "string \<Rightarrow> string" where
  "sample_repr s = [CHR 0x27] @ s @ [CHR 0x27]"

definition sample_files :: "string \<Rightarrow> string list option" where
  "sample_files =
     map_of [(''logs/scenario.jsonl'', [search_line, hits_line, fetch_line]),
             (''logs/nameless.jsonl'', [nameless_line]),
             (''logs/bare.jsonl'', [bare_line]),
             (''logs/cut.jsonl'', [search_line, cut_line, fetch_line])]"

text \<open>The records that lines 16 to 21 build for the two complete invocations.\<close>

definition search_call :: pydict where
  "search_call =
     [(''tool_name'', JStr ''search''), (''start_time'', JStr ''t1''),
      (''input'', JDict [(''q'', JStr ''cats'')]), (''duration_ms'', JInt 120)]"

definition fetch_call :: pydict where
  "fetch_call =
     [(''tool_name'', JStr ''fetch''), (''start_time'', JStr ''t2''),
      (''input'', JDict []), (''duration_ms'', JInt 0)]"

text \<open>
  The first of them after the completion event, and the record built for the invocation
  that has only a tool name.
\<close>

definition search_done :: pydict where
  "search_done = search_call @ [(''output'', JStr ''3 hits''), (''success'', JBool True)]"

definition bare_call :: pydict where
  "bare_call =
     [(''tool_name'', JStr ''ping''), (''start_time'', JNull),
      (''input'', JDict []), (''duration_ms'', JInt 0)]"

definition script :: string where
  "script = ''convert_otel_simple.py''"

definition sample :: runtime where
  "sample = \<lparr>loads = sample_loads, repr_str = sample_repr, read_lines = sample_files,
              writable = (\<lambda>path. True)\<rparr>"

section \<open>The sample inputs, evaluated\<close>

lemma sample_loads_lines:
  "loads sample search_line = Some search_event"
  "loads sample hits_line = Some hits_event"
  "loads sample fetch_line = Some fetch_event"
  "loads sample nameless_line = Some nameless_event"
  "loads sample bare_line = Some bare_event"
  "loads sample cut_line = None"
  by (simp_all add: sample_def sample_loads_def search_line_def hits_line_def fetch_line_def
      nameless_line_def bare_line_def cut_line_def)

lemma sample_well_formed:
  "well_formed search_event" "well_formed hits_event" "well_formed fetch_event"
  "well_formed nameless_event" "well_formed bare_event"
  by (simp_all add: well_formed_def mapping_or_absent_def search_event_def hits_event_def
      fetch_event_def nameless_event_def bare_event_def search_data_def hits_data_def
      fetch_data_def nameless_data_def bare_data_def)

lemma sample_carries:
  "carries_tool_input search_event" "\<not> carries_tool_input hits_event"
  "carries_tool_input fetch_event" "carries_tool_input nameless_event"
  "carries_tool_input bare_event"
  by (simp_all add: carries_tool_input_def dict_get_def search_event_def hits_event_def
      fetch_event_def nameless_event_def bare_event_def search_data_def hits_data_def
      fetch_data_def nameless_data_def bare_data_def)

section \<open>One record per tool invocation, in order\<close>

lemma call_core_dict_set_output: "call_core (dict_set ''output'' v c) = call_core c"
  by (induction c) (auto simp: call_core_def)

lemma call_core_dict_set_success: "call_core (dict_set ''success'' v c) = call_core c"
  by (induction c) (auto simp: call_core_def)

lemma call_core_attach_output: "call_core (attach_output out c) = call_core c"
  by (simp add: attach_output_def call_core_dict_set_output call_core_dict_set_success)

lemma call_core_make_call: "make_call data ti = Inr c \<Longrightarrow> call_core c = c"
  by (auto simp: make_call_def call_core_def split: json.splits)

lemma call_core_idem: "call_core (call_core c) = call_core c"
  by (simp add: call_core_def)

lemma derived_from_core: "derived_from (call_core c) ev = derived_from c ev"
  by (cases ev) (simp_all add: derived_from_def call_core_idem)

lemma map_call_core_update_last:
  "calls \<noteq> [] \<Longrightarrow>
   map call_core (calls[length calls - 1 := attach_output out (last calls)]) = map call_core calls"
  by (simp add: map_update call_core_attach_output last_conv_nth list_update_same_conv)

lemma list_all2_derived_core:
  "list_all2 derived_from calls evs = list_all2 derived_from (map call_core calls) evs"
  by (simp add: list_all2_map1 derived_from_core)

text \<open>One event: on a well-formed event the loop body does not raise.\<close>

lemma process_event_well_formed:
  assumes "well_formed ev" and "list_all2 derived_from calls prev"
  shows "\<exists>calls'. process_event calls ev = Inr calls'
           \<and> list_all2 derived_from calls' (prev @ filter carries_tool_input [ev])"
proof -
  from assms(1) obtain data where ev: "ev = JDict data"
    and ti: "mapping_or_absent data ''tool_input''"
    and tout: "mapping_or_absent data ''tool_output''"
    and tm: "mapping_or_absent data ''timing''"
    by (auto simp: well_formed_def split: json.splits)
  show ?thesis
  proof (cases "dict_get data ''event_type'' = JStr ''ToolInput''")
    case True
    show ?thesis
    proof (cases "map_of data ''tool_input''")
      case None
      with True assms(2) show ?thesis
        by (simp add: ev dict_get_default_def carries_tool_input_def)
    next
      case (Some v)
      with ti obtain tin where v: "v = JDict tin"
        by (auto simp: mapping_or_absent_def split: json.splits)
      from tm obtain tmd where tmd: "dict_get_default data ''timing'' (JDict []) = JDict tmd"
        by (auto simp: mapping_or_absent_def dict_get_default_def split: option.splits json.splits)
      show ?thesis
      proof (cases "tin = []")
        case True
        with \<open>dict_get data ''event_type'' = JStr ''ToolInput''\<close> Some v assms(2) show ?thesis
          by (simp add: ev dict_get_default_def carries_tool_input_def)
      next
        case False
        obtain c where c: "make_call data (JDict tin) = Inr c"
          using tmd by (simp add: make_call_def)
        have "derived_from c ev"
          using c call_core_make_call [OF c] Some v
          by (simp add: derived_from_def ev dict_get_default_def)
        with False True Some v assms(2) c show ?thesis
          by (simp add: ev dict_get_default_def carries_tool_input_def list_all2_appendI)
      qed
    qed
  next
    case False
    then have nc: "\<not> carries_tool_input (JDict data)"
      by (simp add: carries_tool_input_def)
    show ?thesis
    proof (cases "dict_get data ''event_type'' = JStr ''ToolOutput'' \<and> calls \<noteq> []")
      case True
      from tout obtain out where out: "dict_get_default data ''tool_output'' (JDict []) = JDict out"
        by (auto simp: mapping_or_absent_def dict_get_default_def split: option.splits json.splits)
      from True have "calls \<noteq> []" by simp
      then have m: "map call_core (calls[length calls - 1 := attach_output out (last calls)])
          = map call_core calls"
        by (rule map_call_core_update_last)
      from assms(2) have "list_all2 derived_from (map call_core calls) prev"
        by (rule iffD1 [OF list_all2_derived_core])
      then have "list_all2 derived_from
          (map call_core (calls[length calls - 1 := attach_output out (last calls)])) prev"
        by (simp only: m)
      then have "list_all2 derived_from
          (calls[length calls - 1 := attach_output out (last calls)]) prev"
        by (rule iffD2 [OF list_all2_derived_core])
      with True False out show ?thesis
        by (simp add: ev nc)
    next
      case False
      with \<open>dict_get data ''event_type'' \<noteq> JStr ''ToolInput''\<close> assms(2) show ?thesis
        by (auto simp: ev nc)
    qed
  qed
qed

text \<open>The loop, from any list of records built so far.\<close>

lemma extract_loop_well_formed:
  "map (loads E) ls = map Some evs \<Longrightarrow> list_all well_formed evs \<Longrightarrow>
   list_all2 derived_from calls prev \<Longrightarrow>
   \<exists>calls'. extract_loop E calls ls = Inr calls'
      \<and> list_all2 derived_from calls' (prev @ filter carries_tool_input evs)"
proof (induction ls arbitrary: evs calls prev)
  case Nil
  then show ?case by simp
next
  case (Cons l ls)
  from Cons.prems(1) obtain ev evs' where evs: "evs = ev # evs'" and l: "loads E l = Some ev"
    and rest: "map (loads E) ls = map Some evs'"
    by (cases evs) auto
  from Cons.prems(2) evs have wf: "well_formed ev" and wfs: "list_all well_formed evs'"
    by simp_all
  from process_event_well_formed [OF wf Cons.prems(3)]
  obtain calls1 where p: "process_event calls ev = Inr calls1"
    and d: "list_all2 derived_from calls1 (prev @ filter carries_tool_input [ev])"
    by blast
  from Cons.IH [OF rest wfs d]
  obtain calls' where "extract_loop E calls1 ls = Inr calls'"
    and "list_all2 derived_from calls'
           ((prev @ filter carries_tool_input [ev]) @ filter carries_tool_input evs')"
    by blast
  then show ?case
    using l p evs by (cases "carries_tool_input ev") simp_all
qed

lemma extract_well_formed:
  assumes "map (loads E) ls = map Some evs" and "list_all well_formed evs"
  shows "\<exists>calls. extract_tool_calls E ls = Inr calls
           \<and> list_all2 derived_from calls (filter carries_tool_input evs)"
  using extract_loop_well_formed [OF assms, of "[]" "[]"]
  by (simp add: extract_tool_calls_def)

text \<open>
  Claim C1. When every line of the stream decodes to a well-formed event, extraction
  returns a list of records, as many as there are \<^verbatim>\<open>ToolInput\<close> events carrying a non-empty
  \<^verbatim>\<open>tool_input\<close> mapping, and the i-th record is the one built from the i-th such event:
  no other event adds a record, and the order is that of the stream.
\<close>

theorem one_record_per_tool_input:
  assumes "map (loads E) ls = map Some evs" and "list_all well_formed evs"
  shows "\<exists>calls. extract_tool_calls E ls = Inr calls
           \<and> length calls = length (filter carries_tool_input evs)
           \<and> list_all2 derived_from calls (filter carries_tool_input evs)"
proof -
  from extract_well_formed [OF assms]
  obtain calls where e: "extract_tool_calls E ls = Inr calls"
    and d: "list_all2 derived_from calls (filter carries_tool_input evs)"
    by blast
  from d have "length calls = length (filter carries_tool_input evs)"
    by (rule list_all2_lengthD)
  with e d show ?thesis
    by simp
qed

theorem one_record_per_tool_input_witness:
  "map (loads sample) [search_line, hits_line, fetch_line]
     = map Some [search_event, hits_event, fetch_event]
   \<and> list_all well_formed [search_event, hits_event, fetch_event]
   \<and> (\<exists>calls. extract_tool_calls sample [search_line, hits_line, fetch_line] = Inr calls
         \<and> length calls = 2
         \<and> list_all2 derived_from calls [search_event, fetch_event])"
proof -
  have h1: "map (loads sample) [search_line, hits_line, fetch_line]
      = map Some [search_event, hits_event, fetch_event]"
    by (simp add: sample_loads_lines)
  have h2: "list_all well_formed [search_event, hits_event, fetch_event]"
    by (simp add: sample_well_formed)
  from one_record_per_tool_input [OF h1 h2] show ?thesis
    using h1 h2 by (simp add: sample_carries numeral_2_eq_2)
qed

section \<open>Attaching an output to the last record\<close>

lemma extract_loop_append:
  "extract_loop E calls (xs @ ys) =
     (case extract_loop E calls xs of Inl e \<Rightarrow> Inl e | Inr calls' \<Rightarrow> extract_loop E calls' ys)"
  by (induction xs arbitrary: calls) (auto split: option.splits sum.splits)

lemma map_of_dict_set: "map_of (dict_set k v d) = (map_of d)(k \<mapsto> v)"
  by (induction d) (auto simp: fun_eq_iff)

lemma map_of_attach_output:
  "map_of (attach_output out call) =
     (map_of call)(''output'' \<mapsto> dict_get_default out ''results'' (JStr []),
                   ''success'' \<mapsto> dict_get_default out ''success'' (JBool False))"
  by (simp add: attach_output_def map_of_dict_set)

lemma update_last: "xs \<noteq> [] \<Longrightarrow> xs[length xs - Suc 0 := y] = butlast xs @ [y]"
  by (induction xs rule: rev_induct) simp_all

text \<open>
  Claim C2. Take a \<^verbatim>\<open>ToolOutput\<close> event anywhere in the stream, and let \<open>calls\<close> be the
  records extracted from the lines before it. If there is none, the list after the event
  is still empty. If there is one, and \<^verbatim>\<open>tool_output\<close> is absent or a mapping \<open>out\<close>, the
  list after the event has the same records but the last, and the last one maps
  \<^verbatim>\<open>output\<close> to \<^verbatim>\<open>results\<close> of \<open>out\<close> (the empty string by default) and \<^verbatim>\<open>success\<close> to
  \<^verbatim>\<open>success\<close> of \<open>out\<close> (false by default), whatever it mapped them to before, and is
  unchanged on every other key.
\<close>

theorem tool_output_sets_last_record:
  assumes "extract_tool_calls E pre = Inr calls"
    and "loads E line = Some (JDict data)"
    and "dict_get data ''event_type'' = JStr ''ToolOutput''"
  shows "(calls = [] \<longrightarrow> extract_tool_calls E (pre @ [line]) = Inr [])
       \<and> (\<forall>out. calls \<noteq> [] \<and> dict_get_default data ''tool_output'' (JDict []) = JDict out \<longrightarrow>
            (\<exists>call'. extract_tool_calls E (pre @ [line]) = Inr (butlast calls @ [call'])
               \<and> map_of call' =
                   (map_of (last calls))
                     (''output'' \<mapsto> dict_get_default out ''results'' (JStr []),
                      ''success'' \<mapsto> dict_get_default out ''success'' (JBool False))))"
proof -
  from assms(3) have ne: "dict_get data ''event_type'' \<noteq> JStr ''ToolInput''"
    by simp
  from assms(1,2) have step: "extract_tool_calls E (pre @ [line]) = process_event calls (JDict data)"
    by (simp add: extract_tool_calls_def extract_loop_append split: sum.splits)
  have empty: "calls = [] \<longrightarrow> extract_tool_calls E (pre @ [line]) = Inr []"
    using assms(3) ne by (simp add: step)
  have attach: "\<exists>call'. extract_tool_calls E (pre @ [line]) = Inr (butlast calls @ [call'])
      \<and> map_of call' =
          (map_of (last calls))
            (''output'' \<mapsto> dict_get_default out ''results'' (JStr []),
             ''success'' \<mapsto> dict_get_default out ''success'' (JBool False))"
    if "calls \<noteq> []" and "dict_get_default data ''tool_output'' (JDict []) = JDict out" for out
  proof (intro exI conjI)
    show "extract_tool_calls E (pre @ [line])
        = Inr (butlast calls @ [attach_output out (last calls)])"
      using assms(3) ne that by (simp add: step update_last)
    show "map_of (attach_output out (last calls)) =
          (map_of (last calls))
            (''output'' \<mapsto> dict_get_default out ''results'' (JStr []),
             ''success'' \<mapsto> dict_get_default out ''success'' (JBool False))"
      by (rule map_of_attach_output)
  qed
  from empty attach show ?thesis
    by blast
qed

lemma sample_extract_search:
  "extract_tool_calls sample [search_line] = Inr [search_call]"
  by (simp add: extract_tool_calls_def sample_loads_lines search_event_def search_data_def
      search_call_def dict_get_def dict_get_default_def make_call_def)

theorem tool_output_sets_last_record_witness:
  "extract_tool_calls sample [search_line] = Inr [search_call]
   \<and> loads sample hits_line = Some (JDict hits_data)
   \<and> dict_get hits_data ''event_type'' = JStr ''ToolOutput''
   \<and> [search_call] \<noteq> []
   \<and> dict_get_default hits_data ''tool_output'' (JDict []) = JDict hits_output
   \<and> (\<exists>call'. extract_tool_calls sample ([search_line] @ [hits_line]) = Inr ([] @ [call'])
         \<and> map_of call' = (map_of search_call)(''output'' \<mapsto> JStr ''3 hits'', ''success'' \<mapsto> JBool True))"
proof -
  have h1: "extract_tool_calls sample [search_line] = Inr [search_call]"
    by (rule sample_extract_search)
  have h2: "loads sample hits_line = Some (JDict hits_data)"
    by (simp add: sample_loads_lines hits_event_def)
  have h3: "dict_get hits_data ''event_type'' = JStr ''ToolOutput''"
    by (simp add: hits_data_def dict_get_def)
  have h4: "dict_get_default hits_data ''tool_output'' (JDict []) = JDict hits_output"
    by (simp add: hits_data_def dict_get_default_def)
  have v: "dict_get_default hits_output ''results'' (JStr []) = JStr ''3 hits''"
    "dict_get_default hits_output ''success'' (JBool False) = JBool True"
    by (simp_all add: hits_output_def dict_get_default_def)
  from tool_output_sets_last_record [OF h1 h2 h3] h4
  have "\<exists>call'. extract_tool_calls sample ([search_line] @ [hits_line])
            = Inr (butlast [search_call] @ [call'])
         \<and> map_of call' =
             (map_of (last [search_call]))
               (''output'' \<mapsto> dict_get_default hits_output ''results'' (JStr []),
                ''success'' \<mapsto> dict_get_default hits_output ''success'' (JBool False))"
    by blast
  then show ?thesis
    using h1 h2 h3 h4 by (simp add: v)
qed

section \<open>A line that does not parse\<close>

text \<open>
  Claim C5. When a line of the source file fails to parse, the run ends with an exception,
  has printed nothing and has written no file: the records of the lines before it are
  not reported. When the lines before it were processed without an exception, the
  exception is the decoding error of that line, whatever lines follow it.
\<close>

theorem parse_failure_aborts_run:
  assumes "read_lines E (file_path argv) = Some (pre @ bad # post)" and "loads E bad = None"
  shows "written (main E argv) = None \<and> console (main E argv) = []
       \<and> status (main E argv) \<noteq> None
       \<and> (\<forall>calls. extract_tool_calls E pre = Inr calls \<longrightarrow>
            status (main E argv) = Some JSONDecodeError)"
proof -
  have "extract_tool_calls E (pre @ bad # post) =
      (case extract_tool_calls E pre of Inl e \<Rightarrow> Inl e | Inr calls \<Rightarrow> Inl JSONDecodeError)"
    using assms(2) by (simp add: extract_tool_calls_def extract_loop_append split: sum.splits)
  with assms(1) show ?thesis
    by (auto simp: main_def split: sum.splits)
qed

theorem parse_failure_aborts_run_witness:
  "read_lines sample (file_path [script, ''logs/cut.jsonl''])
     = Some ([search_line] @ cut_line # [fetch_line])
   \<and> loads sample cut_line = None
   \<and> extract_tool_calls sample [search_line] = Inr [search_call]
   \<and> main sample [script, ''logs/cut.jsonl'']
       = \<lparr>status = Some JSONDecodeError, console = [], written = None\<rparr>"
proof -
  have h1: "read_lines sample (file_path [script, ''logs/cut.jsonl''])
      = Some ([search_line] @ cut_line # [fetch_line])"
    by (simp add: sample_def sample_files_def file_path_def)
  have h2: "loads sample cut_line = None"
    by (simp add: sample_loads_lines)
  from parse_failure_aborts_run [OF h1 h2] sample_extract_search
  have "written (main sample [script, ''logs/cut.jsonl'']) = None"
    and "console (main sample [script, ''logs/cut.jsonl'']) = []"
    and "status (main sample [script, ''logs/cut.jsonl'']) = Some JSONDecodeError"
    by blast+
  then have "main sample [script, ''logs/cut.jsonl'']
      = \<lparr>status = Some JSONDecodeError, console = [], written = None\<rparr>"
    by (cases "main sample [script, ''logs/cut.jsonl'']") simp
  with h1 h2 sample_extract_search show ?thesis
    by simp
qed

section \<open>The destination document\<close>

lemma foldl_append_concat: "foldl (\<lambda>acc x. acc @ f x) a xs = a @ concat (map f xs)"
  by (induction xs arbitrary: a) simp_all

lemma yml_content_concat: "yml_content R calls = yml_header @ concat (map (yml_entry R) calls)"
  by (simp add: yml_content_def foldl_append_concat)

lemma sample_extract_scenario:
  "extract_tool_calls sample [search_line, hits_line, fetch_line] = Inr [search_done, fetch_call]"
  by (simp add: extract_tool_calls_def sample_loads_lines search_event_def search_data_def
      hits_event_def hits_data_def hits_output_def fetch_event_def fetch_data_def
      search_call_def search_done_def fetch_call_def attach_output_def
      dict_get_def dict_get_default_def make_call_def)

lemma sample_extract_bare:
  "extract_tool_calls sample [search_line, bare_line] = Inr [search_call, bare_call]"
  by (simp add: extract_tool_calls_def sample_loads_lines search_event_def search_data_def
      bare_event_def bare_data_def search_call_def bare_call_def
      dict_get_def dict_get_default_def make_call_def)

lemma sample_paths:
  "yml_path ''logs/scenario.jsonl'' = ''logs/scenario.yml''"
  "yml_path ''logs/nameless.jsonl'' = ''logs/nameless.yml''"
  "yml_path ''logs/bare.jsonl'' = ''logs/bare.yml''"
  by (simp_all add: yml_path_def replace.simps)

lemma sample_main_scenario:
  "main sample [script, ''logs/scenario.jsonl'']
     = \<lparr>status = None,
        console = console_summary sample_repr [search_done, fetch_call]
                    @ [nl @ ''Converted to: logs/scenario.yml''],
        written = Some (''logs/scenario.yml'', yml_content sample_repr [search_done, fetch_call])\<rparr>"
proof -
  have f: "file_path [script, ''logs/scenario.jsonl''] = ''logs/scenario.jsonl''"
    by (simp add: file_path_def)
  have r: "read_lines sample ''logs/scenario.jsonl'' = Some [search_line, hits_line, fetch_line]"
    by (simp add: sample_def sample_files_def)
  have w: "writable sample ''logs/scenario.yml''" "repr_str sample = sample_repr"
    by (simp_all add: sample_def)
  show ?thesis
    by (simp add: main_def Let_def f r w sample_extract_scenario sample_paths)
qed

text \<open>
  Claim C10. Whenever a run writes its document, the document opens with the line
  \<^verbatim>\<open>session_id: 306114a3-3d36-43bb-ac40-335fef6307ac\<close> followed by the line \<^verbatim>\<open>tool_calls:\<close>,
  whatever the command line, the source path and the contents of the source file are.
\<close>

theorem session_id_fixed:
  "written (main E argv) = Some (dest, doc) \<Longrightarrow>
   \<exists>entries. doc = ''session_id: 306114a3-3d36-43bb-ac40-335fef6307ac'' @ nl
                      @ ''tool_calls:'' @ nl @ entries"
  by (auto simp: main_def Let_def yml_content_concat yml_header_def
      split: option.splits sum.splits if_splits)

theorem session_id_fixed_witness:
  "written (main sample [script, ''logs/scenario.jsonl''])
     = Some (''logs/scenario.yml'', yml_content sample_repr [search_done, fetch_call])
   \<and> (\<exists>entries. yml_content sample_repr [search_done, fetch_call]
         = ''session_id: 306114a3-3d36-43bb-ac40-335fef6307ac'' @ nl
             @ ''tool_calls:'' @ nl @ entries)"
proof -
  have h: "written (main sample [script, ''logs/scenario.jsonl''])
     = Some (''logs/scenario.yml'', yml_content sample_repr [search_done, fetch_call])"
    by (simp add: sample_main_scenario)
  from h session_id_fixed [OF h] show ?thesis
    by (rule conjI)
qed

section \<open>The entries of the document\<close>

lemma map_of_call_core:
  "k \<noteq> ''output'' \<Longrightarrow> k \<noteq> ''success'' \<Longrightarrow> map_of (call_core c) k = map_of c k"
  by (induction c) (auto simp: call_core_def)





section \<open>Defaults of a record\<close>

text \<open>
  Claim C6. In the result of extracting a stream of well-formed events, take the i-th
  record and the i-th \<^verbatim>\<open>ToolInput\<close> event carrying a non-empty \<^verbatim>\<open>tool_input\<close>, which it
  was built from. If the event has no \<^verbatim>\<open>timing\<close>, or a \<^verbatim>\<open>timing\<close> mapping without
  \<^verbatim>\<open>step_timeuse_ms\<close>, the record's \<^verbatim>\<open>duration_ms\<close> is 0. If its \<^verbatim>\<open>tool_input\<close> has no
  \<^verbatim>\<open>tool_args\<close>, the record's \<^verbatim>\<open>input\<close> is the empty mapping.
\<close>

theorem missing_fields_take_defaults:
  assumes "map (loads E) ls = map Some evs" and "list_all well_formed evs"
    and "extract_tool_calls E ls = Inr calls"
    and "i < length calls"
    and "filter carries_tool_input evs ! i = JDict data"
  shows "((map_of data ''timing'' = None
           \<or> (\<exists>tm. map_of data ''timing'' = Some (JDict tm) \<and> map_of tm ''step_timeuse_ms'' = None))
          \<longrightarrow> map_of (calls ! i) ''duration_ms'' = Some (JInt 0))
       \<and> ((\<exists>ti. map_of data ''tool_input'' = Some (JDict ti) \<and> map_of ti ''tool_args'' = None)
          \<longrightarrow> map_of (calls ! i) ''input'' = Some (JDict []))"
proof -
  from extract_well_formed [OF assms(1,2)] assms(3)
  have "list_all2 derived_from calls (filter carries_tool_input evs)"
    by auto
  from list_all2_nthD [OF this assms(4)] assms(5)
  have d: "make_call data (dict_get_default data ''tool_input'' (JDict [])) = Inr (call_core (calls ! i))"
    by (simp add: derived_from_def)
  have dur: "map_of (calls ! i) ''duration_ms'' = map_of (call_core (calls ! i)) ''duration_ms''"
    and inp: "map_of (calls ! i) ''input'' = map_of (call_core (calls ! i)) ''input''"
    by (simp_all add: map_of_call_core)
  from d obtain ti tm where ti: "dict_get_default data ''tool_input'' (JDict []) = JDict ti"
    and tm: "dict_get_default data ''timing'' (JDict []) = JDict tm"
    and c: "call_core (calls ! i) =
        [(''tool_name'', dict_get ti ''tool_name''),
         (''start_time'', dict_get data ''timestamp''),
         (''input'', dict_get_default ti ''tool_args'' (JDict [])),
         (''duration_ms'', dict_get_default tm ''step_timeuse_ms'' (JInt 0))]"
    by (auto simp: make_call_def split: json.splits)
  have "map_of (calls ! i) ''duration_ms'' = Some (JInt 0)"
    if "map_of data ''timing'' = None
        \<or> (\<exists>tm. map_of data ''timing'' = Some (JDict tm) \<and> map_of tm ''step_timeuse_ms'' = None)"
    using that tm by (auto simp: dur c dict_get_default_def)
  moreover have "map_of (calls ! i) ''input'' = Some (JDict [])"
    if "\<exists>ti. map_of data ''tool_input'' = Some (JDict ti) \<and> map_of ti ''tool_args'' = None"
    using that ti by (auto simp: inp c dict_get_default_def)
  ultimately show ?thesis
    by blast
qed

theorem missing_fields_take_defaults_witness:
  "map (loads sample) [search_line, bare_line] = map Some [search_event, bare_event]
   \<and> list_all well_formed [search_event, bare_event]
   \<and> extract_tool_calls sample [search_line, bare_line] = Inr [search_call, bare_call]
   \<and> 1 < length [search_call, bare_call]
   \<and> filter carries_tool_input [search_event, bare_event] ! 1 = JDict bare_data
   \<and> map_of bare_data ''timing'' = None
   \<and> map_of bare_data ''tool_input'' = Some (JDict [(''tool_name'', JStr ''ping'')])
   \<and> map_of [(''tool_name'', JStr ''ping'')] ''tool_args'' = None
   \<and> map_of ([search_call, bare_call] ! 1) ''duration_ms'' = Some (JInt 0)
   \<and> map_of ([search_call, bare_call] ! 1) ''input'' = Some (JDict [])"
proof -
  have h1: "map (loads sample) [search_line, bare_line] = map Some [search_event, bare_event]"
    by (simp add: sample_loads_lines)
  have h2: "list_all well_formed [search_event, bare_event]"
    by (simp add: sample_well_formed)
  have h3: "extract_tool_calls sample [search_line, bare_line] = Inr [search_call, bare_call]"
    by (rule sample_extract_bare)
  have h4: "1 < length [search_call, bare_call]"
    by simp
  have "filter carries_tool_input [search_event, bare_event] = [search_event, bare_event]"
    by (simp add: sample_carries)
  then have h5: "filter carries_tool_input [search_event, bare_event] ! 1 = JDict bare_data"
    by (simp add: bare_event_def)
  have h6: "map_of bare_data ''timing'' = None"
    and h7: "map_of bare_data ''tool_input'' = Some (JDict [(''tool_name'', JStr ''ping'')])"
    by (simp_all add: bare_data_def)
  have h8: "map_of [(''tool_name'', JStr ''ping'')] ''tool_args'' = None"
    by simp
  from missing_fields_take_defaults [OF h1 h2 h3 h4 h5] h6 h7 h8
  have "map_of ([search_call, bare_call] ! 1) ''duration_ms'' = Some (JInt 0)"
    and "map_of ([search_call, bare_call] ! 1) ''input'' = Some (JDict [])"
    by blast+
  with h1 h2 h3 h4 h5 h6 h7 h8 show ?thesis
    by blast
qed

section \<open>Fields stored as None\<close>

text \<open>
  Claim C3. Line 17 stores \<^verbatim>\<open>tool_input.get('tool_name')\<close> under the key \<^verbatim>\<open>tool_name\<close> even
  when it is \<^verbatim>\<open>None\<close>, so the default of \<^verbatim>\<open>call.get('tool_name', 'Unknown')\<close> on lines 30
  and 38 never applies. A run over the one-line file whose event has a non-empty
  \<^verbatim>\<open>tool_input\<close> without \<^verbatim>\<open>tool_name\<close> prints the name \<^verbatim>\<open>None\<close> on the console and writes
  \<^verbatim>\<open>tool_name: None\<close> to the document, not \<^verbatim>\<open>Unknown\<close>.
\<close>

theorem missing_tool_name_rendered_None:
  \<open>main sample [script, ''logs/nameless.jsonl''] =
     \<lparr>status = None,
      console = [''Found 1 tool calls:'',
                 ''  1. None - {'q': 'dogs'}'',
                 nl @ ''Converted to: logs/nameless.yml''],
      written = Some (''logs/nameless.yml'',
        ''session_id: 306114a3-3d36-43bb-ac40-335fef6307ac'' @ nl
        @ ''tool_calls:'' @ nl
        @ ''  - tool_name: None'' @ nl
        @ ''    start_time: "t3"'' @ nl
        @ ''    input: {'q': 'dogs'}'' @ nl
        @ ''    duration_ms: 0'' @ nl)\<rparr>\<close>
proof -
  have f: "file_path [script, ''logs/nameless.jsonl''] = ''logs/nameless.jsonl''"
    by (simp add: file_path_def)
  have r: "read_lines sample ''logs/nameless.jsonl'' = Some [nameless_line]"
    by (simp add: sample_def sample_files_def)
  have w: "writable sample ''logs/nameless.yml''" "repr_str sample = sample_repr"
    by (simp_all add: sample_def)
  have e: "extract_tool_calls sample [nameless_line] =
      Inr [[(''tool_name'', JNull), (''start_time'', JStr ''t3''),
            (''input'', JDict [(''q'', JStr ''dogs'')]), (''duration_ms'', JInt 0)]]"
    by (simp add: extract_tool_calls_def sample_loads_lines nameless_event_def nameless_data_def
        dict_get_def dict_get_default_def make_call_def)
  show ?thesis
    by (simp add: main_def Let_def f r w e sample_paths console_summary_def console_line_def
        yml_content_def yml_entry_def yml_header_def dict_get_default_def py_str_def
        sample_repr_def str_int_def str_nat.simps digit_char_def nl_def enumerate_eq_zip)
qed

text \<open>
  Claim C7. Line 18 stores \<^verbatim>\<open>data.get('timestamp')\<close> under the key \<^verbatim>\<open>start_time\<close> even when
  it is \<^verbatim>\<open>None\<close>, so the default of \<^verbatim>\<open>call.get('start_time', '')\<close> on line 39 never
  applies. A run over the one-line file whose event has no \<^verbatim>\<open>timestamp\<close> writes
  \<^verbatim>\<open>start_time: "None"\<close> to the document, not a quoted empty string.
\<close>

theorem missing_timestamp_rendered_None:
  \<open>main sample [script, ''logs/bare.jsonl''] =
     \<lparr>status = None,
      console = [''Found 1 tool calls:'',
                 ''  1. ping - {}'',
                 nl @ ''Converted to: logs/bare.yml''],
      written = Some (''logs/bare.yml'',
        ''session_id: 306114a3-3d36-43bb-ac40-335fef6307ac'' @ nl
        @ ''tool_calls:'' @ nl
        @ ''  - tool_name: ping'' @ nl
        @ ''    start_time: "None"'' @ nl
        @ ''    input: {}'' @ nl
        @ ''    duration_ms: 0'' @ nl)\<rparr>\<close>
proof -
  have f: "file_path [script, ''logs/bare.jsonl''] = ''logs/bare.jsonl''"
    by (simp add: file_path_def)
  have r: "read_lines sample ''logs/bare.jsonl'' = Some [bare_line]"
    by (simp add: sample_def sample_files_def)
  have w: "writable sample ''logs/bare.yml''" "repr_str sample = sample_repr"
    by (simp_all add: sample_def)
  have e: "extract_tool_calls sample [bare_line] = Inr [bare_call]"
    by (simp add: extract_tool_calls_def sample_loads_lines bare_event_def bare_data_def
        bare_call_def dict_get_def dict_get_default_def make_call_def)
  show ?thesis
    by (simp add: main_def Let_def f r w e sample_paths console_summary_def console_line_def
        yml_content_def yml_entry_def yml_header_def dict_get_default_def py_str_def bare_call_def
        sample_repr_def str_int_def str_nat.simps digit_char_def nl_def enumerate_eq_zip)
qed

section \<open>The destination path\<close>






end
